theory Spec2Isabelle
  imports
    Main
    "HOL-Library.AList"
    "HOL-Library.Char_ord"
    "HOL-Library.List_Lexorder"
    "HOL-Library.Multiset"
begin

section \<open>Python values and exceptions\<close>

text \<open>
  The values that \<^verbatim>\<open>response.json()\<close> can return and that callers pass as
  parameters: \<^verbatim>\<open>None\<close>, booleans, integers, strings, lists and dictionaries.
  A dictionary is an association list in insertion order; lookup takes the first
  binding of a key, and a Python dictionary is such a list with distinct keys.
  Floating-point numbers are not part of the model.
  Strings are byte lists (UTF-8); the lexicographic order on bytes agrees with
  Python's order on code points.
\<close>

datatype json =
    JNull
  | JBool bool
  | JInt int
  | JStr string
  | JList "json list"
  | JObj "(string \<times> json) list"

text \<open>
  Exceptions of the Python run. \<open>SystemExit\<close> is what \<^verbatim>\<open>exit()\<close> raises
  (\<^verbatim>\<open>SystemExit(None)\<close>). \<open>Unmodelled\<close> is not a Python exception: it marks a
  run that continues in Python with values outside this model (\<^verbatim>\<open>str()\<close> of a
  list or dictionary, a title that is neither a string nor \<^verbatim>\<open>None\<close>), about
  which nothing is stated.
\<close>

datatype py_error =
    KeyError string
  | TypeError
  | IndexError
  | JSONDecodeError
  | RequestException
  | SystemExit
  | Unmodelled

text \<open>A raised exception ends the computation; otherwise the value is passed on.\<close>

fun bind_result :: "'e + 'a \<Rightarrow> ('a \<Rightarrow> 'e + 'b) \<Rightarrow> 'e + 'b" where
  "bind_result (Inl e) f = Inl e"
| "bind_result (Inr x) f = f x"

section \<open>Built-in operations used by the script\<close>

text \<open>\<^verbatim>\<open>obj[key]\<close> with a string key.\<close>

fun subscript :: "json \<Rightarrow> string \<Rightarrow> py_error + json" where
  "subscript (JObj kvs) k = (case map_of kvs k of None \<Rightarrow> Inl (KeyError k) | Some v \<Rightarrow> Inr v)"
| "subscript _ k = Inl TypeError"

text \<open>\<^verbatim>\<open>for element in obj\<close>: the elements of a list, the keys of a dictionary, the
  characters of a string; other values are not iterable.\<close>

fun py_iter :: "json \<Rightarrow> py_error + json list" where
  "py_iter (JList xs) = Inr xs"
| "py_iter (JObj kvs) = Inr (map (\<lambda>kv. JStr (fst kv)) kvs)"
| "py_iter (JStr s) = Inr (map (\<lambda>c. JStr [c]) s)"
| "py_iter _ = Inl TypeError"

fun is_substring :: "string \<Rightarrow> string \<Rightarrow> bool" where
  "is_substring k [] = (k = [])"
| "is_substring k (c # cs) = (take (length k) (c # cs) = k \<or> is_substring k cs)"

text \<open>\<^verbatim>\<open>key in obj\<close> with a string key.\<close>

fun py_contains :: "string \<Rightarrow> json \<Rightarrow> py_error + bool" where
  "py_contains k (JObj kvs) = Inr (map_of kvs k \<noteq> None)"
| "py_contains k (JList xs) = Inr (JStr k \<in> set xs)"
| "py_contains k (JStr s) = Inr (is_substring k s)"
| "py_contains k _ = Inl TypeError"

text \<open>Truth value of an object, as tested by \<^verbatim>\<open>if obj:\<close>.\<close>

fun truthy :: "json \<Rightarrow> bool" where
  "truthy JNull = False"
| "truthy (JBool b) = b"
| "truthy (JInt i) = (i \<noteq> 0)"
| "truthy (JStr s) = (s \<noteq> [])"
| "truthy (JList xs) = (xs \<noteq> [])"
| "truthy (JObj kvs) = (kvs \<noteq> [])"

text \<open>Decimal rendering of integers, \<^verbatim>\<open>str(n)\<close>.\<close>

definition digit :: "nat \<Rightarrow> char" where
  "digit d = ''0123456789'' ! d"

function str_nat :: "nat \<Rightarrow> string" where
  "str_nat n = (if n < 10 then [digit n] else str_nat (n div 10) @ [digit (n mod 10)])"
  by pat_completeness auto
termination
  by (relation "measure (\<lambda>n. n)") auto

declare str_nat.simps [simp del]

definition str_int :: "int \<Rightarrow> string" where
  "str_int i = (if i < 0 then CHR ''-'' # str_nat (nat (- i)) else str_nat (nat i))"

text \<open>One replacement field \<^verbatim>\<open>{}\<close> of \<^verbatim>\<open>str.format\<close>: \<^verbatim>\<open>str(v)\<close>.\<close>

fun py_str :: "json \<Rightarrow> py_error + string" where
  "py_str JNull = Inr ''None''"
| "py_str (JBool b) = Inr (if b then ''True'' else ''False'')"
| "py_str (JInt i) = Inr (str_int i)"
| "py_str (JStr s) = Inr s"
| "py_str _ = Inl Unmodelled"

section \<open>Module constants\<close>

definition QUERY_STRING :: string where
  "QUERY_STRING = concat (map (\<lambda>l. l @ ''\<newline>'')
    ['''',
     '''',
     ''query GetMedia($status: [MediaStatus!], $format: [MediaFormat!], $season: MediaSeason, $year: Int){'',
     ''    Page{'',
     ''        media(status_in: $status, format_in: $format, season: $season, seasonYear: $year){'',
     ''            title{'',
     ''                romaji'',
     ''                english'',
     ''                native'',
     ''            }'',
     ''            id'',
     ''            startDate{'',
     ''                year'',
     ''                month'',
     ''                day'',
     ''            }'',
     ''            endDate{'',
     ''                year'',
     ''                month'',
     ''                day'',
     ''            }'',
     ''            episodes'',
     ''            seasonInt'',
     ''            seasonYear'',
     ''            season'',
     ''            format'',
     ''            status'',
     ''            duration'',
     ''            genres'',
     ''            meanScore'',
     ''            popularity'',
     ''            trending'',
     ''            stats{'',
     ''                scoreDistribution{'',
     ''                    score'',
     ''                    amount'',
     ''                }'',
     ''                statusDistribution{'',
     ''                    status'',
     ''                    amount'',
     ''                }'',
     ''            }'',
     ''        }'',
     ''    }'',
     ''}'',
     ''''])"

definition VARIABLES_default :: "(string \<times> json) list" where
  "VARIABLES_default =
    [(''status'', JList [JStr ''RELEASING'', JStr ''NOT_YET_RELEASED'']),
     (''format'', JList [JStr ''TV'', JStr ''MOVIE'', JStr ''TV_SHORT'', JStr ''OVA'', JStr ''ONA'']),
     (''year'', JInt 2024),
     (''season'', JStr ''SUMMER'')]"

definition GRAPH_QL_URL :: string where
  "GRAPH_QL_URL = ''https://graphql.anilist.co/''"

section \<open>process_graphql\<close>

text \<open>Lines 124--132: the start-date string of one element. The \<^verbatim>\<open>and\<close> chain
  stops at the first \<^verbatim>\<open>None\<close>, so later components are not looked up then.\<close>

definition start_date_format :: "json \<Rightarrow> json \<Rightarrow> json \<Rightarrow> py_error + string" where
  "start_date_format a b c =
     bind_result (py_str a) (\<lambda>sa.
     bind_result (py_str b) (\<lambda>sb.
     bind_result (py_str c) (\<lambda>sc.
       Inr (sa @ ''.'' @ sb @ ''.'' @ sc))))"

definition start_date_str :: "json \<Rightarrow> py_error + string" where
  "start_date_str start_date =
     bind_result (subscript start_date ''year'') (\<lambda>y.
     if y = JNull then start_date_format (JInt 1) (JInt 1) (JInt 1999) else
     bind_result (subscript start_date ''month'') (\<lambda>m.
     if m = JNull then start_date_format (JInt 1) (JInt 1) (JInt 1999) else
     bind_result (subscript start_date ''day'') (\<lambda>d.
     if d = JNull then start_date_format (JInt 1) (JInt 1) (JInt 1999) else
       start_date_format d m y)))"

text \<open>Lines 134--143 for one of the two title keys: the name stays \<^verbatim>\<open>""\<close> unless
  the key is in the title and its value is not \<^verbatim>\<open>None\<close>.\<close>

definition title_name :: "json \<Rightarrow> string \<Rightarrow> py_error + string" where
  "title_name title k =
     bind_result (py_contains k title) (\<lambda>present.
     if \<not> present then Inr '''' else
     bind_result (subscript title k) (\<lambda>v.
     if v = JNull then Inr '''' else
       (case v of JStr s \<Rightarrow> Inr s | _ \<Rightarrow> Inl Unmodelled)))"

text \<open>The body of the loop, lines 124--145: the row
  \<^verbatim>\<open>[romaji_name, english_name, start_date_str]\<close> of one element.\<close>

definition extract_element :: "json \<Rightarrow> py_error + string list" where
  "extract_element element =
     bind_result (subscript element ''startDate'') (\<lambda>start_date.
     bind_result (start_date_str start_date) (\<lambda>date_str.
     bind_result (subscript element ''title'') (\<lambda>title.
     bind_result (title_name title ''romaji'') (\<lambda>romaji_name.
     bind_result (title_name title ''english'') (\<lambda>english_name.
       Inr [romaji_name, english_name, date_str])))))"

text \<open>The loop of lines 121--145, with \<open>acc\<close> the list \<^verbatim>\<open>extracted_elements\<close>.\<close>

fun extract_loop :: "json list \<Rightarrow> string list list \<Rightarrow> py_error + string list list" where
  "extract_loop [] acc = Inr acc"
| "extract_loop (element # rest) acc =
     bind_result (extract_element element) (\<lambda>row. extract_loop rest (acc @ [row]))"

text \<open>Line 119.\<close>

definition media_object :: "json \<Rightarrow> py_error + json" where
  "media_object response_data =
     bind_result (subscript response_data ''data'') (\<lambda>d.
     bind_result (subscript d ''Page'') (\<lambda>p.
       subscript p ''media''))"

text \<open>Lines 119--145: the list \<^verbatim>\<open>extracted_elements\<close> when the loop has ended.\<close>

definition extracted_elements :: "json \<Rightarrow> py_error + string list list" where
  "extracted_elements response_data =
     bind_result (media_object response_data) (\<lambda>media.
     bind_result (py_iter media) (\<lambda>elements.
       extract_loop elements []))"

text \<open>Line 147: \<^verbatim>\<open>sorted(extracted_elements, key=lambda x: x[1])\<close>. Python's sort is
  stable, and a stable sort by a key has one result, the one \<open>sort_key\<close> computes.
  Every row has three fields, so \<^verbatim>\<open>x[1]\<close> is in range.\<close>

definition process_graphql :: "json \<Rightarrow> py_error + string list list" where
  "process_graphql response_data =
     bind_result (extracted_elements response_data) (\<lambda>rows.
       Inr (sort_key (\<lambda>x. x ! 1) rows))"

section \<open>The process state and the network\<close>

text \<open>
  What the script reads and writes outside its local variables: the module-level
  dictionary \<^verbatim>\<open>VARIABLES\<close>, standard output, the system clipboard (a clipboard is
  taken to exist, so \<^verbatim>\<open>pyperclip.copy\<close> does not raise), and the requests handed to
  \<^verbatim>\<open>requests.post\<close>, as triples of URL, headers and JSON payload.
\<close>

record state =
  VARIABLES :: "(string \<times> json) list"
  stdout :: string
  clipboard :: string
  posted :: "(string \<times> (string \<times> string) list \<times> json) list"

text \<open>
  An HTTP response: its status code and what \<^verbatim>\<open>response.json()\<close> does, which is to
  return the parsed body or to raise. The server and the network are a function from
  the request to a response or a raised exception.
\<close>

record http_response =
  status_code :: int
  json_body :: "py_error + json"

type_synonym transport = "string \<Rightarrow> (string \<times> string) list \<Rightarrow> json \<Rightarrow> py_error + http_response"

definition py_print :: "string \<Rightarrow> state \<Rightarrow> state" where
  "py_print s st = st\<lparr>stdout := stdout st @ s @ ''\<newline>''\<rparr>"

text \<open>The exit status of the interpreter: 0 when the program ends or \<^verbatim>\<open>SystemExit(None)\<close>
  is raised, 1 when another exception is not caught.\<close>

fun exit_status :: "py_error option \<Rightarrow> int option" where
  "exit_status None = Some 0"
| "exit_status (Some SystemExit) = Some 0"
| "exit_status (Some Unmodelled) = None"
| "exit_status (Some _) = Some 1"

section \<open>query_graphql\<close>

definition query_graphql ::
  "string \<Rightarrow> (string \<times> json) list \<Rightarrow> string \<Rightarrow> transport \<Rightarrow> state \<Rightarrow> (py_error + json) \<times> state" where
  "query_graphql query variables url post st =
     (let headers = [(''Content-Type'', ''application/json'')];
          request_data = JObj [(''query'', JStr query), (''variables'', JObj variables)];
          st' = st\<lparr>posted := posted st @ [(url, headers, request_data)]\<rparr>
      in (bind_result (post url headers request_data) (\<lambda>response.
            if status_code response = 200 then json_body response else Inr JNull),
          st'))"

section \<open>tabulate_anichart_data\<close>

text \<open>\<^verbatim>\<open>"{} \t {} \t {} \n".format(*entry)\<close>: the first three fields of the entry, and
  \<^verbatim>\<open>IndexError\<close> when there are fewer.\<close>

fun format_entry :: "string list \<Rightarrow> py_error + string" where
  "format_entry (a # b # c # rest) =
     Inr (a @ [CHR '' '', CHR 0x09, CHR '' ''] @ b @ [CHR '' '', CHR 0x09, CHR '' ''] @ c
            @ [CHR '' '', CHR ''\<newline>''])"
| "format_entry _ = Inl IndexError"

fun tabulate_loop :: "string list list \<Rightarrow> string \<Rightarrow> py_error + string" where
  "tabulate_loop [] string_to_copy = Inr string_to_copy"
| "tabulate_loop (entry # rest) string_to_copy =
     bind_result (format_entry entry) (\<lambda>loop_string.
       tabulate_loop rest (string_to_copy @ loop_string))"

definition tabulate_anichart_data :: "string list list \<Rightarrow> state \<Rightarrow> py_error option \<times> state" where
  "tabulate_anichart_data data_set st =
     (let st1 = py_print ''\<newline>--------------------\<newline>'' st in
      case tabulate_loop data_set [] of
        Inl e \<Rightarrow> (Some e, st1)
      | Inr string_to_copy \<Rightarrow>
          (let st2 = py_print string_to_copy st1;
               st3 = st2\<lparr>clipboard := string_to_copy\<rparr>;
               st4 = py_print ''\<newline>\<newline>--------------------\<newline>\<newline>'' st3;
               st5 = py_print (''Elements: '' @ str_nat (length data_set)) st4
           in (None, st5)))"

section \<open>extract_graphql_data\<close>

text \<open>Lines 194--201: one of the four \<^verbatim>\<open>if var: VARIABLES[key] = var\<close>, and the
  four in the order of the source.\<close>

definition overwrite :: "string \<Rightarrow> json \<Rightarrow> state \<Rightarrow> state" where
  "overwrite key var st =
     (if truthy var then st\<lparr>VARIABLES := AList.update key var (VARIABLES st)\<rparr> else st)"

definition apply_overrides :: "json \<Rightarrow> json \<Rightarrow> json \<Rightarrow> json \<Rightarrow> state \<Rightarrow> state" where
  "apply_overrides status_var format_var year_var season_var st =
     overwrite ''season'' season_var
       (overwrite ''year'' year_var
         (overwrite ''format'' format_var
           (overwrite ''status'' status_var st)))"

text \<open>Lines 193--208. \<^verbatim>\<open>None\<close> is \<open>JNull\<close>, also as the value of a parameter that is
  left out.\<close>

definition extract_graphql_data ::
  "json \<Rightarrow> json \<Rightarrow> json \<Rightarrow> json \<Rightarrow> transport \<Rightarrow> state \<Rightarrow> py_error option \<times> state" where
  "extract_graphql_data status_var format_var year_var season_var post st =
     (let st4 = apply_overrides status_var format_var year_var season_var st;
          (r, st5) = query_graphql QUERY_STRING (VARIABLES st4) GRAPH_QL_URL post st4
      in case r of
           Inl e \<Rightarrow> (Some e, st5)
         | Inr response_data \<Rightarrow>
             if response_data = JNull
             then (Some SystemExit, py_print ''No data returned from query graphql!'' st5)
             else (case process_graphql response_data of
                     Inl e \<Rightarrow> (Some e, st5)
                   | Inr processed_data \<Rightarrow> tabulate_anichart_data processed_data st5))"

section \<open>Media entries of the data model\<close>

text \<open>
  A media entry as the query of \<open>QUERY_STRING\<close> is answered: a dictionary with a
  \<^verbatim>\<open>startDate\<close> dictionary whose \<^verbatim>\<open>year\<close>, \<^verbatim>\<open>month\<close> and \<^verbatim>\<open>day\<close> are integers or
  \<^verbatim>\<open>None\<close>, and a \<^verbatim>\<open>title\<close> dictionary whose \<^verbatim>\<open>romaji\<close> and \<^verbatim>\<open>english\<close> are strings,
  \<^verbatim>\<open>None\<close> or absent.
\<close>

fun date_component_ok :: "json option \<Rightarrow> bool" where
  "date_component_ok (Some JNull) = True"
| "date_component_ok (Some (JInt i)) = True"
| "date_component_ok _ = False"

fun title_value_ok :: "json option \<Rightarrow> bool" where
  "title_value_ok None = True"
| "title_value_ok (Some JNull) = True"
| "title_value_ok (Some (JStr s)) = True"
| "title_value_ok _ = False"

fun start_date_ok :: "json option \<Rightarrow> bool" where
  "start_date_ok (Some (JObj sd)) =
     (date_component_ok (map_of sd ''year'') \<and> date_component_ok (map_of sd ''month'')
        \<and> date_component_ok (map_of sd ''day''))"
| "start_date_ok _ = False"

fun title_ok :: "json option \<Rightarrow> bool" where
  "title_ok (Some (JObj t)) =
     (title_value_ok (map_of t ''romaji'') \<and> title_value_ok (map_of t ''english''))"
| "title_ok _ = False"

fun media_entry_ok :: "json \<Rightarrow> bool" where
  "media_entry_ok (JObj kvs) =
     (start_date_ok (map_of kvs ''startDate'') \<and> title_ok (map_of kvs ''title''))"
| "media_entry_ok _ = False"

text \<open>A server that answers every request with the same response.\<close>

definition respond :: "http_response \<Rightarrow> transport" where
  "respond response url headers request_data = Inr response"

section \<open>Auxiliary facts\<close>

lemma bind_result_Inr_iff:
  "bind_result r f = Inr y \<longleftrightarrow> (\<exists>x. r = Inr x \<and> f x = Inr y)"
  by (cases r) simp_all

lemma extract_loop_Inr_iff:
  "extract_loop elements acc = Inr rows \<longleftrightarrow>
     (\<exists>rs. rows = acc @ rs \<and> list_all2 (\<lambda>e r. extract_element e = Inr r) elements rs)"
proof (induction elements arbitrary: acc)
  case Nil
  then show ?case by auto
next
  case (Cons element rest)
  show ?case
  proof (cases "extract_element element")
    case (Inl err)
    then show ?thesis by (auto simp: list_all2_Cons1)
  next
    case (Inr row)
    then show ?thesis by (auto simp: Cons.IH list_all2_Cons1)
  qed
qed

lemma date_component_ok_cases:
  "date_component_ok c \<Longrightarrow> c = Some JNull \<or> (\<exists>i. c = Some (JInt i))"
  by (cases c rule: date_component_ok.cases) simp_all

lemma title_value_ok_cases:
  "title_value_ok c \<Longrightarrow> c = None \<or> c = Some JNull \<or> (\<exists>s. c = Some (JStr s))"
  by (cases c rule: title_value_ok.cases) simp_all

lemma start_date_ok_cases:
  "start_date_ok v \<Longrightarrow> \<exists>sd. v = Some (JObj sd) \<and> date_component_ok (map_of sd ''year'')
     \<and> date_component_ok (map_of sd ''month'') \<and> date_component_ok (map_of sd ''day'')"
  by (cases v rule: start_date_ok.cases) simp_all

lemma title_ok_cases:
  "title_ok v \<Longrightarrow> \<exists>t. v = Some (JObj t) \<and> title_value_ok (map_of t ''romaji'')
     \<and> title_value_ok (map_of t ''english'')"
  by (cases v rule: title_ok.cases) simp_all

lemma str_int_fallback: "str_int 1 = ''1''" "str_int 1999 = ''1999''"
  by (simp_all add: str_int_def str_nat.simps digit_def)

lemma start_date_format_ints:
  "start_date_format (JInt a) (JInt b) (JInt c) = Inr (str_int a @ ''.'' @ str_int b @ ''.'' @ str_int c)"
  by (simp add: start_date_format_def)

lemma fallback_date: "start_date_format (JInt 1) (JInt 1) (JInt 1999) = Inr ''1.1.1999''"
  by (simp add: start_date_format_ints str_int_fallback)

text \<open>The start-date string of a start date of the data model.\<close>

lemma start_date_str_ok:
  assumes "date_component_ok (map_of sd ''year'')" "date_component_ok (map_of sd ''month'')"
    "date_component_ok (map_of sd ''day'')"
  shows "start_date_str (JObj sd) =
     Inr (case (map_of sd ''year'', map_of sd ''month'', map_of sd ''day'') of
            (Some (JInt y), Some (JInt m), Some (JInt d)) \<Rightarrow>
               str_int d @ ''.'' @ str_int m @ ''.'' @ str_int y
          | _ \<Rightarrow> ''1.1.1999'')"
  using assms
  by (auto dest!: date_component_ok_cases simp: start_date_str_def start_date_format_ints str_int_fallback)

lemma title_name_ok:
  assumes "title_value_ok (map_of t k)"
  shows "title_name (JObj t) k = Inr (case map_of t k of Some (JStr s) \<Rightarrow> s | _ \<Rightarrow> '''')"
  using assms by (auto dest!: title_value_ok_cases simp: title_name_def)

lemma extract_element_ok:
  assumes "media_entry_ok element"
  shows "\<exists>row. extract_element element = Inr row"
proof -
  from assms obtain kvs where e: "element = JObj kvs"
    by (cases element) simp_all
  with assms obtain sd t where
    sd: "map_of kvs ''startDate'' = Some (JObj sd)" "date_component_ok (map_of sd ''year'')"
      "date_component_ok (map_of sd ''month'')" "date_component_ok (map_of sd ''day'')" and
    t: "map_of kvs ''title'' = Some (JObj t)" "title_value_ok (map_of t ''romaji'')"
      "title_value_ok (map_of t ''english'')"
    by (auto dest!: start_date_ok_cases title_ok_cases)
  show ?thesis
    by (simp add: e extract_element_def sd(1) t(1) start_date_str_ok [OF sd(2-4)]
        title_name_ok [OF t(2)] title_name_ok [OF t(3)])
qed

lemma extract_loop_ok:
  assumes "\<forall>e \<in> set elements. media_entry_ok e"
  shows "\<exists>rows. extract_loop elements acc = Inr rows"
  using assms
proof (induction elements arbitrary: acc)
  case Nil
  then show ?case by simp
next
  case (Cons element rest)
  from Cons.prems have "\<exists>row. extract_element element = Inr row"
    by (simp add: extract_element_ok)
  then obtain row where "extract_element element = Inr row" ..
  with Cons show ?case by simp
qed

lemma extract_loop_length:
  "extract_loop elements acc = Inr rows \<Longrightarrow> length rows = length acc + length elements"
  by (auto simp: extract_loop_Inr_iff dest: list_all2_lengthD)

lemma extract_element_row:
  assumes "map_of kvs ''startDate'' = Some (JObj sd)"
    and "date_component_ok (map_of sd ''year'')" "date_component_ok (map_of sd ''month'')"
      "date_component_ok (map_of sd ''day'')"
    and "map_of kvs ''title'' = Some (JObj t)"
    and "title_value_ok (map_of t ''romaji'')" "title_value_ok (map_of t ''english'')"
  shows "extract_element (JObj kvs) =
     Inr [case map_of t ''romaji'' of Some (JStr s) \<Rightarrow> s | _ \<Rightarrow> '''',
          case map_of t ''english'' of Some (JStr s) \<Rightarrow> s | _ \<Rightarrow> '''',
          case (map_of sd ''year'', map_of sd ''month'', map_of sd ''day'') of
            (Some (JInt y), Some (JInt m), Some (JInt d)) \<Rightarrow>
               str_int d @ ''.'' @ str_int m @ ''.'' @ str_int y
          | _ \<Rightarrow> ''1.1.1999'']"
  by (simp add: extract_element_def assms(1,5) start_date_str_ok [OF assms(2-4)]
      title_name_ok [OF assms(6)] title_name_ok [OF assms(7)])

lemma media_entry_ok_cases:
  assumes "media_entry_ok element"
  obtains kvs sd t where "element = JObj kvs"
    "map_of kvs ''startDate'' = Some (JObj sd)"
    "date_component_ok (map_of sd ''year'')" "date_component_ok (map_of sd ''month'')"
    "date_component_ok (map_of sd ''day'')"
    "map_of kvs ''title'' = Some (JObj t)"
    "title_value_ok (map_of t ''romaji'')" "title_value_ok (map_of t ''english'')"
proof -
  from assms obtain kvs where e: "element = JObj kvs"
    by (cases element) simp_all
  with assms have "start_date_ok (map_of kvs ''startDate'')" "title_ok (map_of kvs ''title'')"
    by simp_all
  then show thesis
    using e that by (auto dest!: start_date_ok_cases title_ok_cases)
qed

lemma subscript_Inr_iff:
  "subscript v k = Inr x \<longleftrightarrow> (\<exists>kvs. v = JObj kvs \<and> map_of kvs k = Some x)"
  by (cases v) (auto split: option.splits)

lemma title_name_absent_null:
  "title_name (JObj (AList.update k JNull t)) k' = title_name (JObj (AList.delete k t)) k'"
  by (simp add: title_name_def update_conv' delete_conv')

lemma process_graphql_Inr_iff:
  "process_graphql response_data = Inr rows \<longleftrightarrow>
     (\<exists>extracted. extracted_elements response_data = Inr extracted \<and>
        rows = sort_key (\<lambda>x. x ! 1) extracted)"
  by (auto simp: process_graphql_def bind_result_Inr_iff)

lemma empty_key_first:
  fixes key :: "'a \<Rightarrow> string"
  assumes "sorted (map key rows)" "i < length rows" "j < length rows"
    "key (rows ! i) = []" "key (rows ! j) \<noteq> []"
  shows "i < j"
proof (rule ccontr)
  assume "\<not> i < j"
  then have "j \<le> i" by simp
  with assms(1,2) have "map key rows ! j \<le> map key rows ! i"
    by (simp add: sorted_iff_nth_mono del: nth_map)
  with assms(2-5) \<open>j \<le> i\<close> show False by simp
qed

lemma extracted_elements_list:
  assumes "media_object response_data = Inr (JList media)"
  shows "extracted_elements response_data = Inr extracted \<longleftrightarrow>
     list_all2 (\<lambda>e r. extract_element e = Inr r) media extracted"
  by (simp add: extracted_elements_def assms extract_loop_Inr_iff)

lemma stdout_overwrite [simp]: "stdout (overwrite key var st) = stdout st"
  and clipboard_overwrite [simp]: "clipboard (overwrite key var st) = clipboard st"
  and posted_overwrite [simp]: "posted (overwrite key var st) = posted st"
  by (simp_all add: overwrite_def)

lemma apply_overrides_frame:
  "stdout (apply_overrides s f y se st) = stdout st"
  "clipboard (apply_overrides s f y se st) = clipboard st"
  "posted (apply_overrides s f y se st) = posted st"
  by (simp_all add: apply_overrides_def)

lemma snd_query_graphql:
  "snd (query_graphql query variables url post st) =
     st\<lparr>posted := posted st @ [(url, [(''Content-Type'', ''application/json'')],
        JObj [(''query'', JStr query), (''variables'', JObj variables)])]\<rparr>"
  by (simp add: query_graphql_def Let_def)

lemma VARIABLES_py_print [simp]: "VARIABLES (py_print s st) = VARIABLES st"
  and posted_py_print [simp]: "posted (py_print s st) = posted st"
  and clipboard_py_print [simp]: "clipboard (py_print s st) = clipboard st"
  by (simp_all add: py_print_def)

lemma tabulate_anichart_data_frame:
  "VARIABLES (snd (tabulate_anichart_data data_set st)) = VARIABLES st"
  "posted (snd (tabulate_anichart_data data_set st)) = posted st"
  by (simp_all add: tabulate_anichart_data_def Let_def split: sum.splits)

lemma extract_graphql_data_frame:
  "VARIABLES (snd (extract_graphql_data s f y se post st)) = VARIABLES (apply_overrides s f y se st)"
  "posted (snd (extract_graphql_data s f y se post st)) =
     posted st @ [(GRAPH_QL_URL, [(''Content-Type'', ''application/json'')],
        JObj [(''query'', JStr QUERY_STRING),
              (''variables'', JObj (VARIABLES (apply_overrides s f y se st)))])]"
  by (simp_all add: extract_graphql_data_def query_graphql_def Let_def tabulate_anichart_data_frame
      apply_overrides_frame split: sum.splits)

lemma map_of_VARIABLES_overwrite:
  "map_of (VARIABLES (overwrite key var st)) k =
     (if k = key \<and> truthy var then Some var else map_of (VARIABLES st) k)"
  by (simp add: overwrite_def update_conv')

lemma map_of_VARIABLES_apply_overrides:
  "map_of (VARIABLES (apply_overrides status_var format_var year_var season_var st)) key =
     (if key = ''status'' \<and> truthy status_var then Some status_var
      else if key = ''format'' \<and> truthy format_var then Some format_var
      else if key = ''year'' \<and> truthy year_var then Some year_var
      else if key = ''season'' \<and> truthy season_var then Some season_var
      else map_of (VARIABLES st) key)"
  by (simp add: apply_overrides_def map_of_VARIABLES_overwrite)

lemma format_entry_three:
  assumes "3 \<le> length entry"
  shows "format_entry entry =
     Inr (entry ! 0 @ [CHR '' '', CHR 0x09, CHR '' ''] @ entry ! 1 @ [CHR '' '', CHR 0x09, CHR '' '']
            @ entry ! 2 @ [CHR '' '', CHR ''\<newline>''])"
proof -
  from assms obtain a b c rest where "entry = a # b # c # rest"
    by (metis Suc_le_length_iff numeral_3_eq_3)
  then show ?thesis by simp
qed

lemma tabulate_loop_three:
  assumes "\<forall>entry \<in> set data_set. 3 \<le> length entry"
  shows "tabulate_loop data_set string_to_copy =
     Inr (string_to_copy @ concat (map (\<lambda>entry.
            entry ! 0 @ [CHR '' '', CHR 0x09, CHR '' ''] @ entry ! 1 @ [CHR '' '', CHR 0x09, CHR '' '']
              @ entry ! 2 @ [CHR '' '', CHR ''\<newline>'']) data_set))"
  using assms
proof (induction data_set arbitrary: string_to_copy)
  case Nil
  then show ?case by simp
next
  case (Cons entry rest)
  then have "3 \<le> length entry" by simp
  from format_entry_three [OF this] Cons show ?case by simp
qed

section \<open>Properties of process_graphql\<close>

text \<open>
  C1. When \<^verbatim>\<open>response_data['data']['Page']['media']\<close> is a list, every list that
  \<open>process_graphql\<close> returns has the length of the media list, and
  \<open>process_graphql\<close> does return a list when every entry is a media entry of the data
  model, whatever titles are absent or \<^verbatim>\<open>None\<close> and whatever date components are
  \<^verbatim>\<open>None\<close>: no entry is dropped.
\<close>

theorem count_preserved:
  assumes "media_object response_data = Inr (JList media)"
  shows "(\<forall>rows. process_graphql response_data = Inr rows \<longrightarrow> length rows = length media) \<and>
         ((\<forall>element \<in> set media. media_entry_ok element) \<longrightarrow>
            (\<exists>rows. process_graphql response_data = Inr rows \<and> length rows = length media))"
proof -
  have ext: "extracted_elements response_data = extract_loop media []"
    by (simp add: extracted_elements_def assms)
  have len: "length rows = length media" if "process_graphql response_data = Inr rows" for rows
    using that by (auto simp: process_graphql_def ext bind_result_Inr_iff dest: extract_loop_length)
  have "\<exists>rows. process_graphql response_data = Inr rows"
    if "\<forall>element \<in> set media. media_entry_ok element"
    using extract_loop_ok [OF that, of "[]"] by (auto simp: process_graphql_def ext)
  with len show ?thesis by blast
qed

theorem count_preserved_witness:
  "media_object (JObj [(''data'', JObj [(''Page'', JObj [(''media'', JList
      [JObj [(''title'', JObj []),
             (''startDate'', JObj [(''year'', JNull), (''month'', JInt 5), (''day'', JInt 1)])],
       JObj [(''title'', JObj [(''romaji'', JNull), (''english'', JStr ''Foo'')]),
             (''startDate'', JObj [(''year'', JInt 2024), (''month'', JInt 7), (''day'', JInt 3)])]])])])])
     = Inr (JList
      [JObj [(''title'', JObj []),
             (''startDate'', JObj [(''year'', JNull), (''month'', JInt 5), (''day'', JInt 1)])],
       JObj [(''title'', JObj [(''romaji'', JNull), (''english'', JStr ''Foo'')]),
             (''startDate'', JObj [(''year'', JInt 2024), (''month'', JInt 7), (''day'', JInt 3)])]])
   \<and> (\<exists>rows. process_graphql (JObj [(''data'', JObj [(''Page'', JObj [(''media'', JList
      [JObj [(''title'', JObj []),
             (''startDate'', JObj [(''year'', JNull), (''month'', JInt 5), (''day'', JInt 1)])],
       JObj [(''title'', JObj [(''romaji'', JNull), (''english'', JStr ''Foo'')]),
             (''startDate'', JObj [(''year'', JInt 2024), (''month'', JInt 7), (''day'', JInt 3)])]])])])])
        = Inr rows \<and> length rows = 2)"
proof -
  let ?media =
     "[JObj [(''title'', JObj []),
             (''startDate'', JObj [(''year'', JNull), (''month'', JInt 5), (''day'', JInt 1)])],
       JObj [(''title'', JObj [(''romaji'', JNull), (''english'', JStr ''Foo'')]),
             (''startDate'', JObj [(''year'', JInt 2024), (''month'', JInt 7), (''day'', JInt 3)])]]"
  let ?response = "JObj [(''data'', JObj [(''Page'', JObj [(''media'', JList ?media)])])]"
  have m: "media_object ?response = Inr (JList ?media)"
    by (simp add: media_object_def)
  have ok: "\<forall>element \<in> set ?media. media_entry_ok element"
    by simp
  from count_preserved [OF m] ok
  have "\<exists>rows. process_graphql ?response = Inr rows \<and> length rows = length ?media"
    by blast
  moreover have "length ?media = 2"
    by simp
  ultimately have "\<exists>rows. process_graphql ?response = Inr rows \<and> length rows = 2"
    by (simp only:)
  with m show ?thesis by (rule conjI)
qed

text \<open>
  C2. For a media entry of the data model, the third field of its row is
  \<^verbatim>\<open>day.month.year\<close>, in decimal, when the three components of \<^verbatim>\<open>startDate\<close> are
  integers, and the string \<^verbatim>\<open>1.1.1999\<close> when any of the three is \<^verbatim>\<open>None\<close>; a
  component that is not \<^verbatim>\<open>None\<close> is an integer.
\<close>

theorem start_date_of_row:
  assumes "media_entry_ok element"
    and "subscript element ''startDate'' = Inr start_date"
    and "subscript start_date ''year'' = Inr y"
    and "subscript start_date ''month'' = Inr m"
    and "subscript start_date ''day'' = Inr d"
  shows "\<exists>romaji english date. extract_element element = Inr [romaji, english, date] \<and>
     (\<forall>yi mi di. y = JInt yi \<and> m = JInt mi \<and> d = JInt di \<longrightarrow>
        date = str_int di @ ''.'' @ str_int mi @ ''.'' @ str_int yi) \<and>
     (y = JNull \<or> m = JNull \<or> d = JNull \<longrightarrow> date = ''1.1.1999'') \<and>
     (y \<noteq> JNull \<and> m \<noteq> JNull \<and> d \<noteq> JNull \<longrightarrow> (\<exists>yi mi di. y = JInt yi \<and> m = JInt mi \<and> d = JInt di))"
proof -
  from assms(1) obtain kvs sd t where e: "element = JObj kvs"
    and sd: "map_of kvs ''startDate'' = Some (JObj sd)"
    and c: "date_component_ok (map_of sd ''year'')" "date_component_ok (map_of sd ''month'')"
      "date_component_ok (map_of sd ''day'')"
    and t: "map_of kvs ''title'' = Some (JObj t)"
      "title_value_ok (map_of t ''romaji'')" "title_value_ok (map_of t ''english'')"
    by (rule media_entry_ok_cases)
  from assms(2) e sd have s: "start_date = JObj sd"
    by simp
  from assms(3-5) s have l: "map_of sd ''year'' = Some y" "map_of sd ''month'' = Some m"
    "map_of sd ''day'' = Some d"
    by (auto split: option.splits)
  from c l have "y = JNull \<or> (\<exists>i. y = JInt i)" "m = JNull \<or> (\<exists>i. m = JInt i)"
    "d = JNull \<or> (\<exists>i. d = JInt i)"
    by (auto dest!: date_component_ok_cases)
  then show ?thesis
    unfolding e extract_element_row [OF sd c t] l by auto
qed

theorem start_date_of_row_witness:
  "(\<exists>romaji english. extract_element
      (JObj [(''title'', JObj [(''romaji'', JStr ''R''), (''english'', JStr ''E'')]),
             (''startDate'', JObj [(''year'', JInt 2024), (''month'', JInt 7), (''day'', JInt 3)])])
      = Inr [romaji, english, ''3.7.2024'']) \<and>
   (\<exists>romaji english. extract_element
      (JObj [(''title'', JObj [(''romaji'', JStr ''R''), (''english'', JStr ''E'')]),
             (''startDate'', JObj [(''year'', JNull), (''month'', JInt 5), (''day'', JInt 1)])])
      = Inr [romaji, english, ''1.1.1999''])"
proof -
  let ?t = "(''title'', JObj [(''romaji'', JStr ''R''), (''english'', JStr ''E'')])"
  let ?sd1 = "JObj [(''year'', JInt 2024), (''month'', JInt 7), (''day'', JInt 3)]"
  let ?sd2 = "JObj [(''year'', JNull), (''month'', JInt 5), (''day'', JInt 1)]"
  have s: "str_int 3 @ ''.'' @ str_int 7 @ ''.'' @ str_int 2024 = ''3.7.2024''"
    by (simp add: str_int_def str_nat.simps digit_def)
  have "media_entry_ok (JObj [?t, (''startDate'', ?sd1)])"
    "subscript (JObj [?t, (''startDate'', ?sd1)]) ''startDate'' = Inr ?sd1"
    "subscript ?sd1 ''year'' = Inr (JInt 2024)" "subscript ?sd1 ''month'' = Inr (JInt 7)"
    "subscript ?sd1 ''day'' = Inr (JInt 3)"
    by simp_all
  from start_date_of_row [OF this] s
  have a: "\<exists>romaji english. extract_element (JObj [?t, (''startDate'', ?sd1)])
      = Inr [romaji, english, ''3.7.2024'']"
    by auto
  have "media_entry_ok (JObj [?t, (''startDate'', ?sd2)])"
    "subscript (JObj [?t, (''startDate'', ?sd2)]) ''startDate'' = Inr ?sd2"
    "subscript ?sd2 ''year'' = Inr JNull" "subscript ?sd2 ''month'' = Inr (JInt 5)"
    "subscript ?sd2 ''day'' = Inr (JInt 1)"
    by simp_all
  from start_date_of_row [OF this]
  have b: "\<exists>romaji english. extract_element (JObj [?t, (''startDate'', ?sd2)])
      = Inr [romaji, english, ''1.1.1999'']"
    by auto
  from a b show ?thesis by (rule conjI)
qed

text \<open>
  C3. For a media entry of the data model, the first two fields of its row are the
  \<^verbatim>\<open>romaji\<close> and \<^verbatim>\<open>english\<close> values of the title where these are strings, and the
  empty string where the key is absent or its value is \<^verbatim>\<open>None\<close>. Whatever the entry,
  a title with a key set to \<^verbatim>\<open>None\<close> and the same title without that key give the
  same result.
\<close>

theorem titles_of_row:
  "(media_entry_ok element \<and> subscript element ''title'' = Inr (JObj t) \<longrightarrow>
     (\<exists>romaji english date. extract_element element = Inr [romaji, english, date] \<and>
       (\<forall>s. map_of t ''romaji'' = Some (JStr s) \<longrightarrow> romaji = s) \<and>
       (map_of t ''romaji'' = None \<or> map_of t ''romaji'' = Some JNull \<longrightarrow> romaji = '''') \<and>
       (\<forall>s. map_of t ''english'' = Some (JStr s) \<longrightarrow> english = s) \<and>
       (map_of t ''english'' = None \<or> map_of t ''english'' = Some JNull \<longrightarrow> english = ''''))) \<and>
   extract_element (JObj (AList.update ''title'' (JObj (AList.update k JNull t')) kvs)) =
   extract_element (JObj (AList.update ''title'' (JObj (AList.delete k t')) kvs))"
proof (intro conjI impI)
  assume a: "media_entry_ok element \<and> subscript element ''title'' = Inr (JObj t)"
  then obtain kvs sd t' where e: "element = JObj kvs"
    and sd: "map_of kvs ''startDate'' = Some (JObj sd)"
    and c: "date_component_ok (map_of sd ''year'')" "date_component_ok (map_of sd ''month'')"
      "date_component_ok (map_of sd ''day'')"
    and t: "map_of kvs ''title'' = Some (JObj t')"
      "title_value_ok (map_of t' ''romaji'')" "title_value_ok (map_of t' ''english'')"
    by (blast elim: media_entry_ok_cases)
  from a e t(1) have "t' = t" by simp
  with t have t: "map_of kvs ''title'' = Some (JObj t)"
      "title_value_ok (map_of t ''romaji'')" "title_value_ok (map_of t ''english'')"
    by simp_all
  show "\<exists>romaji english date. extract_element element = Inr [romaji, english, date] \<and>
       (\<forall>s. map_of t ''romaji'' = Some (JStr s) \<longrightarrow> romaji = s) \<and>
       (map_of t ''romaji'' = None \<or> map_of t ''romaji'' = Some JNull \<longrightarrow> romaji = '''') \<and>
       (\<forall>s. map_of t ''english'' = Some (JStr s) \<longrightarrow> english = s) \<and>
       (map_of t ''english'' = None \<or> map_of t ''english'' = Some JNull \<longrightarrow> english = '''')"
    unfolding e extract_element_row [OF sd c t] by auto
next
  show "extract_element (JObj (AList.update ''title'' (JObj (AList.update k JNull t')) kvs)) =
   extract_element (JObj (AList.update ''title'' (JObj (AList.delete k t')) kvs))"
    by (simp add: extract_element_def update_conv' title_name_absent_null)
qed

theorem titles_of_row_witness:
  "(\<exists>date. extract_element
      (JObj [(''title'', JObj [(''romaji'', JNull), (''english'', JStr ''Foo'')]),
             (''startDate'', JObj [(''year'', JInt 2024), (''month'', JInt 7), (''day'', JInt 3)])])
      = Inr ['''', ''Foo'', date]) \<and>
   extract_element
      (JObj [(''startDate'', JObj [(''year'', JInt 2024), (''month'', JInt 7), (''day'', JInt 3)]),
             (''title'', JObj [(''romaji'', JStr ''Bar''), (''english'', JNull)])]) =
   extract_element
      (JObj [(''startDate'', JObj [(''year'', JInt 2024), (''month'', JInt 7), (''day'', JInt 3)]),
             (''title'', JObj [(''romaji'', JStr ''Bar'')])])"
proof -
  let ?sd = "(''startDate'', JObj [(''year'', JInt 2024), (''month'', JInt 7), (''day'', JInt 3)])"
  let ?t = "[(''romaji'', JNull), (''english'', JStr ''Foo'')]"
  have "media_entry_ok (JObj [(''title'', JObj ?t), ?sd]) \<and>
     subscript (JObj [(''title'', JObj ?t), ?sd]) ''title'' = Inr (JObj ?t)"
    by simp
  with titles_of_row [of "JObj [(''title'', JObj ?t), ?sd]" ?t]
  have a: "\<exists>date. extract_element (JObj [(''title'', JObj ?t), ?sd]) = Inr ['''', ''Foo'', date]"
    by auto
  from titles_of_row [of _ _ "''english''" "[(''romaji'', JStr ''Bar'')]" "[?sd]"]
  have b: "extract_element (JObj [?sd, (''title'', JObj [(''romaji'', JStr ''Bar''), (''english'', JNull)])]) =
     extract_element (JObj [?sd, (''title'', JObj [(''romaji'', JStr ''Bar'')])])"
    by (simp add: AList.delete_eq)
  from a b show ?thesis by (rule conjI)
qed

text \<open>
  C4. The rows that \<open>process_graphql\<close> returns, which \<open>extract_graphql_data\<close> hands to
  \<open>tabulate_anichart_data\<close>, are a permutation of the extracted rows, sorted by the
  English title in the lexicographic order of strings (by character code, so
  case-sensitive); rows with equal English titles keep their order, and a row with an
  empty English title comes before every row with a non-empty one. A 200 response with
  the entries titled Bravo and Alpha, in this order, hands the Alpha row and then the
  Bravo row to \<open>tabulate_anichart_data\<close>.
\<close>

theorem sorted_by_english_title:
  "(process_graphql response_data = Inr rows \<longrightarrow>
     (\<exists>extracted. extracted_elements response_data = Inr extracted \<and>
        mset rows = mset extracted \<and>
        sorted (map (\<lambda>x. x ! 1) rows) \<and>
        (\<forall>k. filter (\<lambda>x. x ! 1 = k) rows = filter (\<lambda>x. x ! 1 = k) extracted) \<and>
        (\<forall>i j. i < length rows \<and> j < length rows \<and> rows ! i ! 1 = [] \<and> rows ! j ! 1 \<noteq> []
           \<longrightarrow> i < j))) \<and>
   extract_graphql_data JNull JNull JNull JNull
     (respond \<lparr>status_code = 200, json_body = Inr (JObj [(''data'', JObj [(''Page'', JObj [(''media'', JList
        [JObj [(''title'', JObj [(''romaji'', JStr ''Buraboo''), (''english'', JStr ''Bravo'')]),
               (''startDate'', JObj [(''year'', JInt 2024), (''month'', JInt 7), (''day'', JInt 3)])],
         JObj [(''title'', JObj [(''romaji'', JStr ''Arufa''), (''english'', JStr ''Alpha'')]),
               (''startDate'', JObj [(''year'', JInt 2024), (''month'', JInt 8), (''day'', JNull)])]])])])])\<rparr>)
     st
   = tabulate_anichart_data
       [[''Arufa'', ''Alpha'', ''1.1.1999''], [''Buraboo'', ''Bravo'', ''3.7.2024'']]
       (st\<lparr>posted := posted st @
          [(GRAPH_QL_URL, [(''Content-Type'', ''application/json'')],
            JObj [(''query'', JStr QUERY_STRING), (''variables'', JObj (VARIABLES st))])]\<rparr>)"
proof (intro conjI impI)
  assume "process_graphql response_data = Inr rows"
  then obtain extracted where e: "extracted_elements response_data = Inr extracted"
    and r: "rows = sort_key (\<lambda>x. x ! 1) extracted"
    by (auto simp: process_graphql_Inr_iff)
  have s: "sorted (map (\<lambda>x. x ! 1) rows)"
    by (simp add: r)
  have "\<forall>i j. i < length rows \<and> j < length rows \<and> rows ! i ! 1 = [] \<and> rows ! j ! 1 \<noteq> []
           \<longrightarrow> i < j"
    using empty_key_first [OF s] by blast
  with e s show "\<exists>extracted. extracted_elements response_data = Inr extracted \<and>
        mset rows = mset extracted \<and>
        sorted (map (\<lambda>x. x ! 1) rows) \<and>
        (\<forall>k. filter (\<lambda>x. x ! 1 = k) rows = filter (\<lambda>x. x ! 1 = k) extracted) \<and>
        (\<forall>i j. i < length rows \<and> j < length rows \<and> rows ! i ! 1 = [] \<and> rows ! j ! 1 \<noteq> []
           \<longrightarrow> i < j)"
    by (simp add: r sort_key_stable)
next
  have p: "process_graphql (JObj [(''data'', JObj [(''Page'', JObj [(''media'', JList
        [JObj [(''title'', JObj [(''romaji'', JStr ''Buraboo''), (''english'', JStr ''Bravo'')]),
               (''startDate'', JObj [(''year'', JInt 2024), (''month'', JInt 7), (''day'', JInt 3)])],
         JObj [(''title'', JObj [(''romaji'', JStr ''Arufa''), (''english'', JStr ''Alpha'')]),
               (''startDate'', JObj [(''year'', JInt 2024), (''month'', JInt 8), (''day'', JNull)])]])])])])
     = Inr [[''Arufa'', ''Alpha'', ''1.1.1999''], [''Buraboo'', ''Bravo'', ''3.7.2024'']]"
    by (simp add: process_graphql_def extracted_elements_def media_object_def extract_element_def
      start_date_str_def start_date_format_def title_name_def str_int_def str_nat.simps digit_def)
  have o: "apply_overrides JNull JNull JNull JNull st = st"
    by (simp add: apply_overrides_def overwrite_def)
  show "extract_graphql_data JNull JNull JNull JNull
     (respond \<lparr>status_code = 200, json_body = Inr (JObj [(''data'', JObj [(''Page'', JObj [(''media'', JList
        [JObj [(''title'', JObj [(''romaji'', JStr ''Buraboo''), (''english'', JStr ''Bravo'')]),
               (''startDate'', JObj [(''year'', JInt 2024), (''month'', JInt 7), (''day'', JInt 3)])],
         JObj [(''title'', JObj [(''romaji'', JStr ''Arufa''), (''english'', JStr ''Alpha'')]),
               (''startDate'', JObj [(''year'', JInt 2024), (''month'', JInt 8), (''day'', JNull)])]])])])])\<rparr>)
     st
   = tabulate_anichart_data
       [[''Arufa'', ''Alpha'', ''1.1.1999''], [''Buraboo'', ''Bravo'', ''3.7.2024'']]
       (st\<lparr>posted := posted st @
          [(GRAPH_QL_URL, [(''Content-Type'', ''application/json'')],
            JObj [(''query'', JStr QUERY_STRING), (''variables'', JObj (VARIABLES st))])]\<rparr>)"
    by (simp add: extract_graphql_data_def o query_graphql_def respond_def p Let_def)
qed

theorem sorted_by_english_title_witness:
  "\<exists>extracted. extracted_elements (JObj [(''data'', JObj [(''Page'', JObj [(''media'', JList
        [JObj [(''title'', JObj [(''romaji'', JStr ''a''), (''english'', JStr ''alpha'')]),
               (''startDate'', JObj [(''year'', JNull), (''month'', JNull), (''day'', JNull)])],
         JObj [(''title'', JObj [(''romaji'', JStr ''B1''), (''english'', JStr ''Bravo'')]),
               (''startDate'', JObj [(''year'', JNull), (''month'', JNull), (''day'', JNull)])],
         JObj [(''title'', JObj [(''romaji'', JStr ''n'')]),
               (''startDate'', JObj [(''year'', JNull), (''month'', JNull), (''day'', JNull)])],
         JObj [(''title'', JObj [(''romaji'', JStr ''B2''), (''english'', JStr ''Bravo'')]),
               (''startDate'', JObj [(''year'', JNull), (''month'', JNull), (''day'', JNull)])]])])])])
      = Inr extracted \<and>
    mset [[''n'', '''', ''1.1.1999''], [''B1'', ''Bravo'', ''1.1.1999''],
          [''B2'', ''Bravo'', ''1.1.1999''], [''a'', ''alpha'', ''1.1.1999'']] = mset extracted \<and>
    sorted (map (\<lambda>x. x ! 1) [[''n'', '''', ''1.1.1999''], [''B1'', ''Bravo'', ''1.1.1999''],
          [''B2'', ''Bravo'', ''1.1.1999''], [''a'', ''alpha'', ''1.1.1999'']]) \<and>
    filter (\<lambda>x. x ! 1 = ''Bravo'') extracted =
      [[''B1'', ''Bravo'', ''1.1.1999''], [''B2'', ''Bravo'', ''1.1.1999'']]"
proof -
  let ?response = "JObj [(''data'', JObj [(''Page'', JObj [(''media'', JList
        [JObj [(''title'', JObj [(''romaji'', JStr ''a''), (''english'', JStr ''alpha'')]),
               (''startDate'', JObj [(''year'', JNull), (''month'', JNull), (''day'', JNull)])],
         JObj [(''title'', JObj [(''romaji'', JStr ''B1''), (''english'', JStr ''Bravo'')]),
               (''startDate'', JObj [(''year'', JNull), (''month'', JNull), (''day'', JNull)])],
         JObj [(''title'', JObj [(''romaji'', JStr ''n'')]),
               (''startDate'', JObj [(''year'', JNull), (''month'', JNull), (''day'', JNull)])],
         JObj [(''title'', JObj [(''romaji'', JStr ''B2''), (''english'', JStr ''Bravo'')]),
               (''startDate'', JObj [(''year'', JNull), (''month'', JNull), (''day'', JNull)])]])])])]"
  let ?rows = "[[''n'', '''', ''1.1.1999''], [''B1'', ''Bravo'', ''1.1.1999''],
          [''B2'', ''Bravo'', ''1.1.1999''], [''a'', ''alpha'', ''1.1.1999'']]"
  have p: "process_graphql ?response = Inr ?rows"
    by (simp add: process_graphql_def extracted_elements_def media_object_def extract_element_def
      start_date_str_def start_date_format_def title_name_def str_int_def str_nat.simps digit_def)
  from sorted_by_english_title [of ?response ?rows] p
  obtain extracted where "extracted_elements ?response = Inr extracted"
    "mset ?rows = mset extracted" "sorted (map (\<lambda>x. x ! 1) ?rows)"
    "filter (\<lambda>x. x ! 1 = ''Bravo'') ?rows = filter (\<lambda>x. x ! 1 = ''Bravo'') extracted"
    by blast
  moreover have "filter (\<lambda>x. x ! 1 = ''Bravo'') ?rows =
      [[''B1'', ''Bravo'', ''1.1.1999''], [''B2'', ''Bravo'', ''1.1.1999'']]"
    by simp
  ultimately show ?thesis by (intro exI [of _ extracted]) simp
qed

text \<open>
  C5, as the claim states it, fails: \<open>process_graphql\<close> returns the rows sorted, so the
  row of the first media entry need not be at the first position. For the entries titled
  Bravo and Alpha the row of the first entry is the Bravo row, and the first row returned
  is the Alpha row.
\<close>

theorem input_order_counterexample:
  "extract_element
     (JObj [(''title'', JObj [(''romaji'', JStr ''Buraboo''), (''english'', JStr ''Bravo'')]),
            (''startDate'', JObj [(''year'', JInt 2024), (''month'', JInt 7), (''day'', JInt 3)])])
     = Inr [''Buraboo'', ''Bravo'', ''3.7.2024''] \<and>
   process_graphql (JObj [(''data'', JObj [(''Page'', JObj [(''media'', JList
        [JObj [(''title'', JObj [(''romaji'', JStr ''Buraboo''), (''english'', JStr ''Bravo'')]),
               (''startDate'', JObj [(''year'', JInt 2024), (''month'', JInt 7), (''day'', JInt 3)])],
         JObj [(''title'', JObj [(''romaji'', JStr ''Arufa''), (''english'', JStr ''Alpha'')]),
               (''startDate'', JObj [(''year'', JInt 2024), (''month'', JInt 8), (''day'', JNull)])]])])])])
     = Inr [[''Arufa'', ''Alpha'', ''1.1.1999''], [''Buraboo'', ''Bravo'', ''3.7.2024'']] \<and>
   [[''Arufa'', ''Alpha'', ''1.1.1999''], [''Buraboo'', ''Bravo'', ''3.7.2024'']] ! 0
     \<noteq> [''Buraboo'', ''Bravo'', ''3.7.2024'']"
  by (simp add: process_graphql_def extracted_elements_def media_object_def extract_element_def
      start_date_str_def start_date_format_def title_name_def str_int_def str_nat.simps digit_def)

text \<open>
  C5, amended. Inside \<open>process_graphql\<close> the list \<^verbatim>\<open>extracted_elements\<close> holds the rows
  in input order, the row of the i-th media entry at position i; what \<open>process_graphql\<close>
  returns is that list sorted by English title (line 147), which is the list in input
  order exactly when the English titles are already in non-decreasing order.
\<close>

theorem input_order_before_sort:
  assumes "media_object response_data = Inr (JList media)"
    and "process_graphql response_data = Inr rows"
  shows "\<exists>extracted. extracted_elements response_data = Inr extracted \<and>
     length extracted = length media \<and>
     (\<forall>i. i < length media \<longrightarrow> extract_element (media ! i) = Inr (extracted ! i)) \<and>
     rows = sort_key (\<lambda>x. x ! 1) extracted \<and>
     (rows = extracted \<longleftrightarrow> sorted (map (\<lambda>x. x ! 1) extracted))"
proof -
  from assms(2) obtain extracted where e: "extracted_elements response_data = Inr extracted"
    and r: "rows = sort_key (\<lambda>x. x ! 1) extracted"
    by (auto simp: process_graphql_Inr_iff)
  from e have l: "list_all2 (\<lambda>e r. extract_element e = Inr r) media extracted"
    by (simp add: extracted_elements_list [OF assms(1)])
  have "rows = extracted \<longleftrightarrow> sorted (map (\<lambda>x. x ! 1) extracted)"
  proof
    assume "rows = extracted"
    then have "sort_key (\<lambda>x. x ! 1) extracted = extracted"
      using r by simp
    then show "sorted (map (\<lambda>x. x ! 1) extracted)"
      by (metis sorted_sort_key)
  next
    assume "sorted (map (\<lambda>x. x ! 1) extracted)"
    then show "rows = extracted"
      by (simp add: r sort_key_id_if_sorted)
  qed
  with e r l show ?thesis
    by (auto simp: list_all2_conv_all_nth)
qed

theorem input_order_before_sort_witness:
  "\<exists>extracted. extracted_elements (JObj [(''data'', JObj [(''Page'', JObj [(''media'', JList
        [JObj [(''title'', JObj [(''romaji'', JStr ''Buraboo''), (''english'', JStr ''Bravo'')]),
               (''startDate'', JObj [(''year'', JInt 2024), (''month'', JInt 7), (''day'', JInt 3)])],
         JObj [(''title'', JObj [(''romaji'', JStr ''Arufa''), (''english'', JStr ''Alpha'')]),
               (''startDate'', JObj [(''year'', JInt 2024), (''month'', JInt 8), (''day'', JNull)])]])])])])
       = Inr extracted \<and>
     length extracted = 2 \<and>
     [[''Arufa'', ''Alpha'', ''1.1.1999''], [''Buraboo'', ''Bravo'', ''3.7.2024'']]
       = sort_key (\<lambda>x. x ! 1) extracted"
proof -
  let ?media = "[JObj [(''title'', JObj [(''romaji'', JStr ''Buraboo''), (''english'', JStr ''Bravo'')]),
               (''startDate'', JObj [(''year'', JInt 2024), (''month'', JInt 7), (''day'', JInt 3)])],
         JObj [(''title'', JObj [(''romaji'', JStr ''Arufa''), (''english'', JStr ''Alpha'')]),
               (''startDate'', JObj [(''year'', JInt 2024), (''month'', JInt 8), (''day'', JNull)])]]"
  let ?response = "JObj [(''data'', JObj [(''Page'', JObj [(''media'', JList ?media)])])]"
  have m: "media_object ?response = Inr (JList ?media)"
    by (simp add: media_object_def)
  have p: "process_graphql ?response =
      Inr [[''Arufa'', ''Alpha'', ''1.1.1999''], [''Buraboo'', ''Bravo'', ''3.7.2024'']]"
    by (simp add: process_graphql_def extracted_elements_def media_object_def extract_element_def
      start_date_str_def start_date_format_def title_name_def str_int_def str_nat.simps digit_def)
  from input_order_before_sort [OF m p]
  obtain extracted where "extracted_elements ?response = Inr extracted"
    "length extracted = length ?media"
    "[[''Arufa'', ''Alpha'', ''1.1.1999''], [''Buraboo'', ''Bravo'', ''3.7.2024'']]
       = sort_key (\<lambda>x. x ! 1) extracted"
    by blast
  moreover have "length ?media = 2" by simp
  ultimately show ?thesis by (intro exI [of _ extracted]) (simp only:)
qed

section \<open>Properties of query_graphql\<close>

text \<open>
  C6. When \<^verbatim>\<open>requests.post\<close> returns a response, \<open>query_graphql\<close> returns what
  \<^verbatim>\<open>response.json()\<close> returns if the status code is 200, and \<^verbatim>\<open>None\<close> for every other
  status code, whatever that code and the body are.
\<close>

theorem query_graphql_result:
  assumes "post url [(''Content-Type'', ''application/json'')]
             (JObj [(''query'', JStr query), (''variables'', JObj variables)]) = Inr response"
  shows "(status_code response = 200 \<longrightarrow>
            fst (query_graphql query variables url post st) = json_body response) \<and>
         (status_code response \<noteq> 200 \<longrightarrow>
            fst (query_graphql query variables url post st) = Inr JNull)"
  using assms by (simp add: query_graphql_def Let_def)

theorem query_graphql_result_witness:
  "fst (query_graphql QUERY_STRING VARIABLES_default GRAPH_QL_URL
          (respond \<lparr>status_code = 200, json_body = Inr (JObj [(''data'', JNull)])\<rparr>)
          \<lparr>VARIABLES = VARIABLES_default, stdout = [], clipboard = [], posted = []\<rparr>)
     = Inr (JObj [(''data'', JNull)]) \<and>
   fst (query_graphql QUERY_STRING VARIABLES_default GRAPH_QL_URL
          (respond \<lparr>status_code = 404, json_body = Inr (JObj [(''data'', JNull)])\<rparr>)
          \<lparr>VARIABLES = VARIABLES_default, stdout = [], clipboard = [], posted = []\<rparr>)
     = Inr JNull \<and>
   fst (query_graphql QUERY_STRING VARIABLES_default GRAPH_QL_URL
          (respond \<lparr>status_code = 500, json_body = Inl JSONDecodeError\<rparr>)
          \<lparr>VARIABLES = VARIABLES_default, stdout = [], clipboard = [], posted = []\<rparr>)
     = Inr JNull"
proof -
  let ?st = "\<lparr>VARIABLES = VARIABLES_default, stdout = [], clipboard = [], posted = []\<rparr>"
  have r: "respond response GRAPH_QL_URL [(''Content-Type'', ''application/json'')]
     (JObj [(''query'', JStr QUERY_STRING), (''variables'', JObj VARIABLES_default)]) = Inr response"
    for response
    by (simp add: respond_def)
  from query_graphql_result [where post = "respond \<lparr>status_code = 200, json_body = Inr (JObj [(''data'', JNull)])\<rparr>" and response = "\<lparr>status_code = 200, json_body = Inr (JObj [(''data'', JNull)])\<rparr>"
      and st = ?st, OF r]
  have a: "fst (query_graphql QUERY_STRING VARIABLES_default GRAPH_QL_URL
          (respond \<lparr>status_code = 200, json_body = Inr (JObj [(''data'', JNull)])\<rparr>) ?st)
     = Inr (JObj [(''data'', JNull)])"
    by simp
  from query_graphql_result [where post = "respond \<lparr>status_code = 404, json_body = Inr (JObj [(''data'', JNull)])\<rparr>" and response = "\<lparr>status_code = 404, json_body = Inr (JObj [(''data'', JNull)])\<rparr>"
      and st = ?st, OF r]
  have b: "fst (query_graphql QUERY_STRING VARIABLES_default GRAPH_QL_URL
          (respond \<lparr>status_code = 404, json_body = Inr (JObj [(''data'', JNull)])\<rparr>) ?st)
     = Inr JNull"
    by simp
  from query_graphql_result [where post = "respond \<lparr>status_code = 500, json_body = Inl JSONDecodeError\<rparr>" and response = "\<lparr>status_code = 500, json_body = Inl JSONDecodeError\<rparr>"
      and st = ?st, OF r]
  have c: "fst (query_graphql QUERY_STRING VARIABLES_default GRAPH_QL_URL
          (respond \<lparr>status_code = 500, json_body = Inl JSONDecodeError\<rparr>) ?st)
     = Inr JNull"
    by simp
  from a b c show ?thesis by (intro conjI)
qed

section \<open>Properties of extract_graphql_data\<close>

text \<open>
  C7, as the claim states it, fails in the exit status: \<^verbatim>\<open>exit()\<close> is called without
  an argument, so the process ends with exit status 0. Here the server answers 404 to the
  call the script makes when it is run as a program.
\<close>

theorem no_data_exit_status_counterexample:
  "exit_status (fst (extract_graphql_data JNull (JList [JStr ''TV'']) (JInt 2024) (JStr ''SUMMER'')
       (respond \<lparr>status_code = 404, json_body = Inl JSONDecodeError\<rparr>)
       \<lparr>VARIABLES = VARIABLES_default, stdout = [], clipboard = [], posted = []\<rparr>)) = Some 0"
  by (simp add: extract_graphql_data_def query_graphql_def respond_def Let_def)

text \<open>
  C7, amended. When \<open>query_graphql\<close> returns \<^verbatim>\<open>None\<close>, \<open>extract_graphql_data\<close> prints
  the line \<^verbatim>\<open>No data returned from query graphql!\<close> and raises \<^verbatim>\<open>SystemExit\<close>, which
  ends the process with exit status 0; nothing else is printed and the clipboard is as
  it was, since \<open>process_graphql\<close> and \<open>tabulate_anichart_data\<close> are not reached.
\<close>

theorem no_data_exit:
  assumes "fst (query_graphql QUERY_STRING
                  (VARIABLES (apply_overrides status_var format_var year_var season_var st))
                  GRAPH_QL_URL post
                  (apply_overrides status_var format_var year_var season_var st)) = Inr JNull"
  shows "fst (extract_graphql_data status_var format_var year_var season_var post st) = Some SystemExit \<and>
         exit_status (fst (extract_graphql_data status_var format_var year_var season_var post st)) = Some 0 \<and>
         stdout (snd (extract_graphql_data status_var format_var year_var season_var post st)) =
           stdout st @ ''No data returned from query graphql!'' @ ''\<newline>'' \<and>
         clipboard (snd (extract_graphql_data status_var format_var year_var season_var post st)) =
           clipboard st"
proof -
  let ?st4 = "apply_overrides status_var format_var year_var season_var st"
  obtain r st5 where q: "query_graphql QUERY_STRING (VARIABLES ?st4) GRAPH_QL_URL post ?st4 = (r, st5)"
    by (cases "query_graphql QUERY_STRING (VARIABLES ?st4) GRAPH_QL_URL post ?st4")
  with assms have r: "r = Inr JNull" by simp
  from q have "st5 = snd (query_graphql QUERY_STRING (VARIABLES ?st4) GRAPH_QL_URL post ?st4)"
    by simp
  then have st5: "stdout st5 = stdout st" "clipboard st5 = clipboard st"
    by (simp_all add: snd_query_graphql apply_overrides_frame)
  have "extract_graphql_data status_var format_var year_var season_var post st =
      (Some SystemExit, py_print ''No data returned from query graphql!'' st5)"
    by (simp add: extract_graphql_data_def q r del: One_nat_def)
  then show ?thesis
    by (simp add: py_print_def st5)
qed

theorem no_data_exit_witness:
  "fst (extract_graphql_data JNull (JList [JStr ''TV'']) (JInt 2024) (JStr ''SUMMER'')
       (respond \<lparr>status_code = 404, json_body = Inl JSONDecodeError\<rparr>)
       \<lparr>VARIABLES = VARIABLES_default, stdout = [], clipboard = ''old'', posted = []\<rparr>)
     = Some SystemExit \<and>
   stdout (snd (extract_graphql_data JNull (JList [JStr ''TV'']) (JInt 2024) (JStr ''SUMMER'')
       (respond \<lparr>status_code = 404, json_body = Inl JSONDecodeError\<rparr>)
       \<lparr>VARIABLES = VARIABLES_default, stdout = [], clipboard = ''old'', posted = []\<rparr>))
     = ''No data returned from query graphql!'' @ ''\<newline>'' \<and>
   clipboard (snd (extract_graphql_data JNull (JList [JStr ''TV'']) (JInt 2024) (JStr ''SUMMER'')
       (respond \<lparr>status_code = 404, json_body = Inl JSONDecodeError\<rparr>)
       \<lparr>VARIABLES = VARIABLES_default, stdout = [], clipboard = ''old'', posted = []\<rparr>))
     = ''old''"
proof -
  let ?st = "\<lparr>VARIABLES = VARIABLES_default, stdout = [], clipboard = ''old'', posted = []\<rparr>"
  let ?post = "respond \<lparr>status_code = 404, json_body = Inl JSONDecodeError\<rparr>"
  have "fst (query_graphql QUERY_STRING
                  (VARIABLES (apply_overrides JNull (JList [JStr ''TV'']) (JInt 2024) (JStr ''SUMMER'') ?st))
                  GRAPH_QL_URL ?post
                  (apply_overrides JNull (JList [JStr ''TV'']) (JInt 2024) (JStr ''SUMMER'') ?st)) = Inr JNull"
    by (simp add: query_graphql_def respond_def Let_def)
  from no_data_exit [OF this] show ?thesis
    by simp
qed

text \<open>
  C8. After a call of \<open>extract_graphql_data\<close>, however the call ends, the entry of
  \<^verbatim>\<open>VARIABLES\<close> under \<^verbatim>\<open>status\<close>, \<^verbatim>\<open>format\<close>, \<^verbatim>\<open>year\<close> or \<^verbatim>\<open>season\<close> is the
  parameter of that name when the parameter is truthy, and every other entry, also these
  four when the parameter is \<^verbatim>\<open>None\<close> or otherwise falsy, is what it was before.
\<close>

theorem overrides_only_when_truthy:
  "map_of (VARIABLES (snd (extract_graphql_data status_var format_var year_var season_var post st))) key =
     (if key = ''status'' \<and> truthy status_var then Some status_var
      else if key = ''format'' \<and> truthy format_var then Some format_var
      else if key = ''year'' \<and> truthy year_var then Some year_var
      else if key = ''season'' \<and> truthy season_var then Some season_var
      else map_of (VARIABLES st) key)"
  by (simp only: extract_graphql_data_frame map_of_VARIABLES_apply_overrides)

theorem overrides_only_when_truthy_witness:
  "map_of (VARIABLES (snd (extract_graphql_data (JList []) (JList [JStr ''TV'']) (JInt 0) JNull
       (respond \<lparr>status_code = 404, json_body = Inl JSONDecodeError\<rparr>)
       \<lparr>VARIABLES = VARIABLES_default, stdout = [], clipboard = [], posted = []\<rparr>))) ''format''
     = Some (JList [JStr ''TV'']) \<and>
   map_of (VARIABLES (snd (extract_graphql_data (JList []) (JList [JStr ''TV'']) (JInt 0) JNull
       (respond \<lparr>status_code = 404, json_body = Inl JSONDecodeError\<rparr>)
       \<lparr>VARIABLES = VARIABLES_default, stdout = [], clipboard = [], posted = []\<rparr>))) ''status''
     = Some (JList [JStr ''RELEASING'', JStr ''NOT_YET_RELEASED'']) \<and>
   map_of (VARIABLES (snd (extract_graphql_data (JList []) (JList [JStr ''TV'']) (JInt 0) JNull
       (respond \<lparr>status_code = 404, json_body = Inl JSONDecodeError\<rparr>)
       \<lparr>VARIABLES = VARIABLES_default, stdout = [], clipboard = [], posted = []\<rparr>))) ''year''
     = Some (JInt 2024) \<and>
   map_of (VARIABLES (snd (extract_graphql_data (JList []) (JList [JStr ''TV'']) (JInt 0) JNull
       (respond \<lparr>status_code = 404, json_body = Inl JSONDecodeError\<rparr>)
       \<lparr>VARIABLES = VARIABLES_default, stdout = [], clipboard = [], posted = []\<rparr>))) ''season''
     = Some (JStr ''SUMMER'')"
proof -
  let ?st = "\<lparr>VARIABLES = VARIABLES_default, stdout = [], clipboard = [], posted = []\<rparr>"
  let ?post = "respond \<lparr>status_code = 404, json_body = Inl JSONDecodeError\<rparr>"
  note t = overrides_only_when_truthy [of "JList []" "JList [JStr ''TV'']" "JInt 0" JNull ?post ?st]
  have a: "map_of (VARIABLES (snd (extract_graphql_data (JList []) (JList [JStr ''TV'']) (JInt 0) JNull
       ?post ?st))) ''format'' = Some (JList [JStr ''TV''])"
    using t [of "''format''"] by simp
  have b: "map_of (VARIABLES (snd (extract_graphql_data (JList []) (JList [JStr ''TV'']) (JInt 0) JNull
       ?post ?st))) ''status'' = Some (JList [JStr ''RELEASING'', JStr ''NOT_YET_RELEASED''])"
    using t [of "''status''"] by (simp add: VARIABLES_default_def)
  have c: "map_of (VARIABLES (snd (extract_graphql_data (JList []) (JList [JStr ''TV'']) (JInt 0) JNull
       ?post ?st))) ''year'' = Some (JInt 2024)"
    using t [of "''year''"] by (simp add: VARIABLES_default_def)
  have d: "map_of (VARIABLES (snd (extract_graphql_data (JList []) (JList [JStr ''TV'']) (JInt 0) JNull
       ?post ?st))) ''season'' = Some (JStr ''SUMMER'')"
    using t [of "''season''"] by (simp add: VARIABLES_default_def)
  from a b c d show ?thesis by (intro conjI)
qed

section \<open>Properties of tabulate_anichart_data\<close>

text \<open>
  C9. For rows of three fields (or more), \<open>tabulate_anichart_data\<close> copies to the
  clipboard the concatenation, in list order, of one line per row: the first field, a
  space, a tab and a space, the second field, a space, a tab and a space, the third field,
  a space and a newline, which is \<^verbatim>\<open>"{} \t {} \t {} \n"\<close> filled in. Standard output
  receives the first separator, that same text, the second separator and the line
  \<^verbatim>\<open>Elements: n\<close> with n the number of rows, each followed by the newline of
  \<^verbatim>\<open>print\<close>; the function returns normally.
\<close>

theorem tabulate_output:
  assumes "\<forall>entry \<in> set data_set. 3 \<le> length entry"
  shows "clipboard (snd (tabulate_anichart_data data_set st)) =
           concat (map (\<lambda>entry.
             entry ! 0 @ [CHR '' '', CHR 0x09, CHR '' ''] @ entry ! 1 @ [CHR '' '', CHR 0x09, CHR '' '']
               @ entry ! 2 @ [CHR '' '', CHR ''\<newline>'']) data_set) \<and>
         stdout (snd (tabulate_anichart_data data_set st)) =
           stdout st
             @ ''\<newline>--------------------\<newline>'' @ ''\<newline>''
             @ clipboard (snd (tabulate_anichart_data data_set st)) @ ''\<newline>''
             @ ''\<newline>\<newline>--------------------\<newline>\<newline>'' @ ''\<newline>''
             @ ''Elements: '' @ str_nat (length data_set) @ ''\<newline>'' \<and>
         fst (tabulate_anichart_data data_set st) = None"
  by (simp add: tabulate_anichart_data_def tabulate_loop_three [OF assms] py_print_def Let_def)

theorem tabulate_output_witness:
  "clipboard (snd (tabulate_anichart_data
       [[''Arufa'', ''Alpha'', ''1.1.1999''], [''Buraboo'', ''Bravo'', ''3.7.2024'']]
       \<lparr>VARIABLES = VARIABLES_default, stdout = [], clipboard = ''old'', posted = []\<rparr>)) =
     ''Arufa'' @ [CHR '' '', CHR 0x09, CHR '' ''] @ ''Alpha'' @ [CHR '' '', CHR 0x09, CHR '' '']
       @ ''1.1.1999'' @ [CHR '' '', CHR ''\<newline>'']
     @ ''Buraboo'' @ [CHR '' '', CHR 0x09, CHR '' ''] @ ''Bravo'' @ [CHR '' '', CHR 0x09, CHR '' '']
       @ ''3.7.2024'' @ [CHR '' '', CHR ''\<newline>''] \<and>
   stdout (snd (tabulate_anichart_data
       [[''Arufa'', ''Alpha'', ''1.1.1999''], [''Buraboo'', ''Bravo'', ''3.7.2024'']]
       \<lparr>VARIABLES = VARIABLES_default, stdout = [], clipboard = ''old'', posted = []\<rparr>)) =
     ''\<newline>--------------------\<newline>\<newline>''
     @ ''Arufa'' @ [CHR '' '', CHR 0x09, CHR '' ''] @ ''Alpha'' @ [CHR '' '', CHR 0x09, CHR '' '']
       @ ''1.1.1999'' @ [CHR '' '', CHR ''\<newline>'']
     @ ''Buraboo'' @ [CHR '' '', CHR 0x09, CHR '' ''] @ ''Bravo'' @ [CHR '' '', CHR 0x09, CHR '' '']
       @ ''3.7.2024'' @ [CHR '' '', CHR ''\<newline>'']
     @ ''\<newline>\<newline>\<newline>--------------------\<newline>\<newline>\<newline>Elements: 2\<newline>''"
proof -
  let ?rows = "[[''Arufa'', ''Alpha'', ''1.1.1999''], [''Buraboo'', ''Bravo'', ''3.7.2024'']]"
  have "\<forall>entry \<in> set ?rows. 3 \<le> length entry"
    by simp
  from tabulate_output [OF this] show ?thesis
    by (simp add: str_nat.simps digit_def)
qed

section \<open>Overrides across calls\<close>

text \<open>
  C10. A truthy value given for one of the four parameters in one call of
  \<open>extract_graphql_data\<close> is still the entry of \<^verbatim>\<open>VARIABLES\<close> after a second call that
  gives \<^verbatim>\<open>None\<close>, or another falsy value, for that parameter, and it is the value sent
  in the request of the second call: the module-level default is not restored.
\<close>

theorem override_persists:
  assumes "(key, v1, v2) \<in> {(''status'', s1, s2), (''format'', f1, f2), (''year'', y1, y2),
             (''season'', se1, se2)}"
    and "truthy v1" and "\<not> truthy v2"
  shows "map_of (VARIABLES (snd (extract_graphql_data s1 f1 y1 se1 post1 st))) key = Some v1 \<and>
     map_of (VARIABLES (snd (extract_graphql_data s2 f2 y2 se2 post2
        (snd (extract_graphql_data s1 f1 y1 se1 post1 st))))) key = Some v1 \<and>
     (\<exists>variables.
        last (posted (snd (extract_graphql_data s2 f2 y2 se2 post2
           (snd (extract_graphql_data s1 f1 y1 se1 post1 st))))) =
          (GRAPH_QL_URL, [(''Content-Type'', ''application/json'')],
           JObj [(''query'', JStr QUERY_STRING), (''variables'', JObj variables)]) \<and>
        map_of variables key = Some v1)"
proof -
  let ?st1 = "snd (extract_graphql_data s1 f1 y1 se1 post1 st)"
  have a: "map_of (VARIABLES ?st1) key = Some v1"
    using assms by (auto simp: extract_graphql_data_frame map_of_VARIABLES_apply_overrides)
  have b: "map_of (VARIABLES (apply_overrides s2 f2 y2 se2 ?st1)) key = Some v1"
    using assms a by (auto simp: map_of_VARIABLES_apply_overrides)
  show ?thesis
    using a b by (simp add: extract_graphql_data_frame)
qed

theorem override_persists_witness:
  "map_of (VARIABLES (snd (extract_graphql_data JNull JNull JNull JNull
        (respond \<lparr>status_code = 200, json_body = Inr (JObj [(''data'', JObj [(''Page'', JObj [(''media'', JList [])])])])\<rparr>)
        (snd (extract_graphql_data JNull JNull (JInt 2025) JNull
           (respond \<lparr>status_code = 200, json_body = Inr (JObj [(''data'', JObj [(''Page'', JObj [(''media'', JList [])])])])\<rparr>)
           \<lparr>VARIABLES = VARIABLES_default, stdout = [], clipboard = [], posted = []\<rparr>))))) ''year''
     = Some (JInt 2025) \<and>
   fst (extract_graphql_data JNull JNull (JInt 2025) JNull
           (respond \<lparr>status_code = 200, json_body = Inr (JObj [(''data'', JObj [(''Page'', JObj [(''media'', JList [])])])])\<rparr>)
           \<lparr>VARIABLES = VARIABLES_default, stdout = [], clipboard = [], posted = []\<rparr>) = None \<and>
   map_of VARIABLES_default ''year'' = Some (JInt 2024)"
proof -
  let ?st = "\<lparr>VARIABLES = VARIABLES_default, stdout = [], clipboard = [], posted = []\<rparr>"
  let ?post = "respond \<lparr>status_code = 200, json_body = Inr (JObj [(''data'', JObj [(''Page'', JObj [(''media'', JList [])])])])\<rparr>"
  have "(''year'', JInt 2025, JNull) \<in> {(''status'', JNull, JNull), (''format'', JNull, JNull),
      (''year'', JInt 2025, JNull), (''season'', JNull, JNull)}" "truthy (JInt 2025)" "\<not> truthy JNull"
    by simp_all
  from override_persists [OF this, of ?post ?st ?post]
  have a: "map_of (VARIABLES (snd (extract_graphql_data JNull JNull JNull JNull ?post
        (snd (extract_graphql_data JNull JNull (JInt 2025) JNull ?post ?st))))) ''year''
     = Some (JInt 2025)"
    by blast
  have b: "fst (extract_graphql_data JNull JNull (JInt 2025) JNull ?post ?st) = None"
    by (simp add: extract_graphql_data_def query_graphql_def respond_def Let_def
        process_graphql_def extracted_elements_def media_object_def tabulate_anichart_data_def)
  have c: "map_of VARIABLES_default ''year'' = Some (JInt 2024)"
    by (simp add: VARIABLES_default_def)
  from a b c show ?thesis by (intro conjI)
qed

end
